theory Spec2Isabelle
  imports Main
begin

section \<open>Strings\<close>

text \<open>
  Python strings are modelled as \<^typ>\<open>string\<close>. The string methods the module uses
  (\<open>in\<close>, \<open>replace\<close>, \<open>lower\<close>, \<open>split\<close>, \<open>strip\<close>) are written out;
  \<open>lower\<close> folds the ASCII letters only.
\<close>

fun startswith :: "string \<Rightarrow> string \<Rightarrow> bool" where
  "startswith s [] = True"
| "startswith [] (p # ps) = False"
| "startswith (c # cs) (p # ps) = (c = p \<and> startswith cs ps)"

text \<open>\<open>sub in s\<close>\<close>

fun contains :: "string \<Rightarrow> string \<Rightarrow> bool" where
  "contains sub [] = (sub = [])"
| "contains sub (c # cs) = (startswith (c # cs) sub \<or> contains sub cs)"

text \<open>
  \<open>s.replace(old, new)\<close>: every non-overlapping occurrence, left to right. With an
  empty \<open>old\<close> Python puts \<open>new\<close> before every character and at the end.
\<close>

function replace :: "string \<Rightarrow> string \<Rightarrow> string \<Rightarrow> string" where
  "replace old new s =
     (if old = [] then new @ concat (map (\<lambda>c. c # new) s)
      else if s = [] then []
      else if startswith s old then new @ replace old new (drop (length old) s)
      else hd s # replace old new (tl s))"
  by pat_completeness auto
termination
  by (relation "measure (\<lambda>(old, new, s). length s)") auto

declare replace.simps [simp del]

definition char_lower :: "char \<Rightarrow> char" where
  "char_lower c =
     (case map_of (zip ''ABCDEFGHIJKLMNOPQRSTUVWXYZ'' ''abcdefghijklmnopqrstuvwxyz'') c of
        Some d \<Rightarrow> d
      | None \<Rightarrow> c)"

definition lower :: "string \<Rightarrow> string" where
  "lower s = map char_lower s"

definition is_space :: "char \<Rightarrow> bool" where
  "is_space c =
     (c \<in> set [CHR '' '', CHR 0x09, CHR 0x0A, CHR 0x0B, CHR 0x0C, CHR 0x0D,
                 CHR 0x1C, CHR 0x1D, CHR 0x1E, CHR 0x1F])"

text \<open>
  \<open>s.split()\<close>: the maximal runs of non-whitespace characters (\<open>is_space\<close> is
  \<open>str.isspace\<close> on ASCII).
\<close>

fun split_ws :: "string \<Rightarrow> string \<Rightarrow> string list" where
  "split_ws acc [] = (if acc = [] then [] else [rev acc])"
| "split_ws acc (c # cs) =
     (if is_space c then (if acc = [] then split_ws [] cs else rev acc # split_ws [] cs)
      else split_ws (c # acc) cs)"

definition split :: "string \<Rightarrow> string list" where
  "split s = split_ws [] s"

text \<open>\<open>s.split(sep)\<close> for a one-character separator: empty fields are kept.\<close>

fun split_sep :: "char \<Rightarrow> string \<Rightarrow> string \<Rightarrow> string list" where
  "split_sep sep acc [] = [rev acc]"
| "split_sep sep acc (c # cs) =
     (if c = sep then rev acc # split_sep sep [] cs else split_sep sep (c # acc) cs)"

definition strip :: "string \<Rightarrow> string" where
  "strip s = rev (dropWhile is_space (rev (dropWhile is_space s)))"

fun digits :: "nat \<Rightarrow> string" where
  "digits n =
     (if n < 10 then [''0123456789'' ! n]
      else digits (n div 10) @ [''0123456789'' ! (n mod 10)])"

declare digits.simps [simp del]

text \<open>\<open>'%s' % n\<close> for an integer.\<close>

definition str_of_int :: "int \<Rightarrow> string" where
  "str_of_int i = (if i < 0 then CHR ''-'' # digits (nat (- i)) else digits (nat i))"

text \<open>\<open>posixpath.basename\<close>: what follows the last slash.\<close>

definition posix_basename :: "string \<Rightarrow> string" where
  "posix_basename p = rev (takeWhile (\<lambda>c. c \<noteq> CHR ''/'') (rev p))"

section \<open>Errors, processes and the operating system\<close>

text \<open>
  Every exception that can leave a function of the module is a value. \<open>Error\<close> is the
  module's own exception class; the others are Python's. \<open>is_OSError\<close> is what
  \<open>except OSError\<close> catches.
\<close>

datatype error =
    Error string
  | OSError
  | FileNotFoundError
  | PermissionError
  | NotADirectoryError
  | CalledProcessError
  | ValueError
  | TypeError
  | IndexError
  | NotImplementedError

fun is_OSError :: "error \<Rightarrow> bool" where
  "is_OSError OSError = True"
| "is_OSError FileNotFoundError = True"
| "is_OSError PermissionError = True"
| "is_OSError NotADirectoryError = True"
| "is_OSError _ = False"

datatype stream = Inherit | DEVNULL

record popen_kw =
  close_fds :: bool
  stdin :: stream
  stdout :: stream
  stderr :: stream
  start_new_session :: bool

text \<open>
  What the module can observe of a spawned process: \<open>p.poll()\<close> right after the spawn
  (\<open>None\<close> while it runs), \<open>p.wait()\<close>, and \<open>p.wait(5)\<close> (\<open>None\<close> when
  \<open>TimeoutExpired\<close> is raised).
\<close>

record proc =
  poll :: "int option"
  wait :: int
  wait5 :: "int option"

datatype event =
    Audit string string
  | Popen "string list" popen_kw
  | Startfile string
  | Osascript string

text \<open>
  The environment the module runs in. Everything outside the module is a field: the
  platform, the environment variables, the library calls, and the outcome of every spawn,
  which may depend on the events so far.
\<close>

record os =
  sys_platform :: string
  environ :: "string \<rightharpoonup> string"
  pathsep :: char
  which :: "string \<Rightarrow> bool"
  path_basename :: "string \<Rightarrow> string"
  path_join :: "string \<Rightarrow> string \<Rightarrow> string"
  shlex_split :: "string \<Rightarrow> error + string list"
  check_output :: "string list \<Rightarrow> error + string"
  spawn :: "event list \<Rightarrow> string list \<Rightarrow> popen_kw \<Rightarrow> error + proc"
  startfile :: "event list \<Rightarrow> string \<Rightarrow> error + unit"
  popen_w :: "event list \<Rightarrow> string \<Rightarrow> (string \<Rightarrow> int option) option"

definition is_win :: "os \<Rightarrow> bool" where
  "is_win e = (take 3 (sys_platform e) = ''win'')"

section \<open>Browser connectors\<close>

datatype klass =
    BaseBrowser
  | GenericBrowser
  | BackgroundBrowser
  | UnixBrowser
  | Mozilla
  | Epiphany
  | Chrome
  | Opera
  | Elinks
  | Konqueror
  | Edge
  | WindowsDefault
  | MacOSXOSAScript

record browser =
  klass :: klass
  name :: string
  basename :: string
  args :: "string list"

text \<open>\<open>BaseBrowser.__init__(self, name='')\<close>; \<open>args\<close> is the class attribute.\<close>

definition BaseBrowser_init :: "klass \<Rightarrow> string \<Rightarrow> browser" where
  "BaseBrowser_init k n = \<lparr>klass = k, name = n, basename = n, args = [''%s'']\<rparr>"

text \<open>\<open>GenericBrowser.__init__\<close> with a string, and with a list (\<open>name[0]\<close> raises on \<open>[]\<close>).\<close>

definition GenericBrowser_str :: "os \<Rightarrow> klass \<Rightarrow> string \<Rightarrow> browser" where
  "GenericBrowser_str e k n =
     \<lparr>klass = k, name = n, basename = path_basename e n, args = [''%s'']\<rparr>"

definition GenericBrowser_argv :: "os \<Rightarrow> klass \<Rightarrow> string \<Rightarrow> string list \<Rightarrow> browser" where
  "GenericBrowser_argv e k n rest =
     \<lparr>klass = k, name = n, basename = path_basename e n, args = rest\<rparr>"

definition GenericBrowser_list :: "os \<Rightarrow> klass \<Rightarrow> string list \<Rightarrow> error + browser" where
  "GenericBrowser_list e k l =
     (case l of
        [] \<Rightarrow> Inl IndexError
      | n # rest \<Rightarrow> Inr (GenericBrowser_argv e k n rest))"

text \<open>Calling a class with no argument, as \<open>command[0]()\<close> does.\<close>

fun instantiate :: "klass \<Rightarrow> error + browser" where
  "instantiate GenericBrowser = Inl TypeError"
| "instantiate BackgroundBrowser = Inl TypeError"
| "instantiate MacOSXOSAScript = Inr (BaseBrowser_init MacOSXOSAScript ''default'')"
| "instantiate k = Inr (BaseBrowser_init k '''')"

subsection \<open>Class attributes of the remote-controllable launchers\<close>

fun is_UnixBrowser :: "klass \<Rightarrow> bool" where
  "is_UnixBrowser UnixBrowser = True"
| "is_UnixBrowser Mozilla = True"
| "is_UnixBrowser Epiphany = True"
| "is_UnixBrowser Chrome = True"
| "is_UnixBrowser Opera = True"
| "is_UnixBrowser Elinks = True"
| "is_UnixBrowser Edge = True"
| "is_UnixBrowser _ = False"

fun raise_opts :: "klass \<Rightarrow> string list option" where
  "raise_opts Epiphany = Some [''-noraise'', '''']"
| "raise_opts _ = None"

fun background :: "klass \<Rightarrow> bool" where
  "background Mozilla = True"
| "background Epiphany = True"
| "background Chrome = True"
| "background Opera = True"
| "background Edge = True"
| "background _ = False"

fun redirect_stdout :: "klass \<Rightarrow> bool" where
  "redirect_stdout Elinks = False"
| "redirect_stdout _ = True"

fun remote_args :: "klass \<Rightarrow> string list" where
  "remote_args Elinks = [''-remote'', ''openURL(%s%action)'']"
| "remote_args _ = [''%action'', ''%s'']"

fun remote_action :: "klass \<Rightarrow> string option" where
  "remote_action Mozilla = Some ''''"
| "remote_action Epiphany = Some ''-n''"
| "remote_action Chrome = Some ''''"
| "remote_action Opera = Some ''''"
| "remote_action Elinks = Some ''''"
| "remote_action Edge = Some ''''"
| "remote_action _ = None"

fun remote_action_newwin :: "klass \<Rightarrow> string option" where
  "remote_action_newwin Mozilla = Some ''-new-window''"
| "remote_action_newwin Epiphany = Some ''-w''"
| "remote_action_newwin Chrome = Some ''--new-window''"
| "remote_action_newwin Opera = Some ''--new-window''"
| "remote_action_newwin Elinks = Some '',new-window''"
| "remote_action_newwin Edge = Some ''--new-window''"
| "remote_action_newwin _ = None"

fun remote_action_newtab :: "klass \<Rightarrow> string option" where
  "remote_action_newtab Mozilla = Some ''-new-tab''"
| "remote_action_newtab Chrome = Some ''''"
| "remote_action_newtab Opera = Some ''''"
| "remote_action_newtab Elinks = Some '',new-tab''"
| "remote_action_newtab Edge = Some ''''"
| "remote_action_newtab _ = None"

subsection \<open>The \<open>open\<close> methods\<close>

text \<open>
  Every \<open>open\<close> method takes the events so far and returns them extended, with the
  value returned (\<open>Inr\<close>) or the exception raised (\<open>Inl\<close>). A \<open>Popen\<close> event records
  the call, whether or not the spawn then raises.
\<close>

type_synonym 'a result = "event list \<times> (error + 'a)"

definition plain_kw :: "bool \<Rightarrow> popen_kw" where
  "plain_kw session =
     \<lparr>close_fds = True, stdin = Inherit, stdout = Inherit, stderr = Inherit,
      start_new_session = session\<rparr>"

definition BaseBrowser_open :: "event list \<Rightarrow> bool result" where
  "BaseBrowser_open tr = (tr, Inl NotImplementedError)"

definition GenericBrowser_open ::
  "os \<Rightarrow> browser \<Rightarrow> string \<Rightarrow> int \<Rightarrow> bool \<Rightarrow> event list \<Rightarrow> bool result" where
  "GenericBrowser_open e b url new autoraise tr =
     (let tr1 = tr @ [Audit ''webbrowser.open'' url];
          cmdline = [name b] @ map (replace ''%s'' url) (args b);
          kw = plain_kw False
      in case spawn e tr1 cmdline kw of
           Inl err \<Rightarrow>
             if is_OSError err then (tr1 @ [Popen cmdline kw], Inr False)
             else (tr1 @ [Popen cmdline kw], Inl err)
         | Inr p \<Rightarrow> (tr1 @ [Popen cmdline kw], Inr (wait p = 0)))"

definition BackgroundBrowser_open ::
  "os \<Rightarrow> browser \<Rightarrow> string \<Rightarrow> int \<Rightarrow> bool \<Rightarrow> event list \<Rightarrow> bool result" where
  "BackgroundBrowser_open e b url new autoraise tr =
     (let cmdline = [name b] @ map (replace ''%s'' url) (args b);
          tr1 = tr @ [Audit ''webbrowser.open'' url];
          kw = plain_kw (\<not> is_win e)
      in case spawn e tr1 cmdline kw of
           Inl err \<Rightarrow>
             if is_OSError err then (tr1 @ [Popen cmdline kw], Inr False)
             else (tr1 @ [Popen cmdline kw], Inl err)
         | Inr p \<Rightarrow> (tr1 @ [Popen cmdline kw], Inr (poll p = None)))"

text \<open>
  \<open>UnixBrowser._invoke\<close>. The spawn is outside every \<open>try\<close>: only \<open>TimeoutExpired\<close>
  of \<open>p.wait(5)\<close> is caught.
\<close>

definition raise_opt_of :: "klass \<Rightarrow> bool \<Rightarrow> bool \<Rightarrow> error + string list" where
  "raise_opt_of k remote autoraise =
     (case raise_opts k of
        None \<Rightarrow> Inr []
      | Some opts \<Rightarrow>
          if \<not> remote \<or> opts = [] then Inr []
          else let i = (if autoraise then 1 else 0 :: nat)
               in if i < length opts
                  then Inr (if opts ! i = [] then [] else [opts ! i])
                  else Inl IndexError)"

definition inout_of :: "klass \<Rightarrow> bool \<Rightarrow> stream" where
  "inout_of k remote = (if remote \<or> background k then DEVNULL else Inherit)"

definition invoke_kw :: "klass \<Rightarrow> bool \<Rightarrow> popen_kw" where
  "invoke_kw k remote =
     \<lparr>close_fds = True,
      stdin = inout_of k remote,
      stdout = (if redirect_stdout k then inout_of k remote else Inherit),
      stderr = inout_of k remote,
      start_new_session = True\<rparr>"

definition invoke ::
  "os \<Rightarrow> browser \<Rightarrow> string list \<Rightarrow> bool \<Rightarrow> bool \<Rightarrow> event list \<Rightarrow> bool result" where
  "invoke e b arglist remote autoraise tr =
     (case raise_opt_of (klass b) remote autoraise of
        Inl err \<Rightarrow> (tr, Inl err)
      | Inr raise_opt \<Rightarrow>
          (let cmdline = [name b] @ raise_opt @ arglist;
               kw = invoke_kw (klass b) remote
           in (case spawn e tr cmdline kw of
                 Inl err \<Rightarrow> (tr @ [Popen cmdline kw], Inl err)
               | Inr p \<Rightarrow>
                   if remote then
                     (case wait5 p of
                        Some rc \<Rightarrow> (tr @ [Popen cmdline kw], Inr (rc = 0))
                      | None \<Rightarrow> (tr @ [Popen cmdline kw], Inr True))
                   else if background (klass b)
                   then (tr @ [Popen cmdline kw], Inr (poll p = None))
                   else (tr @ [Popen cmdline kw], Inr (wait p = 0)))))"

definition bad_new :: "int \<Rightarrow> error" where
  "bad_new new =
     Error (''Bad 'new' parameter to open(); '' @ ''expected 0, 1, or 2, got '' @ str_of_int new)"

text \<open>The action keyword chosen by \<open>new\<close>; \<open>None\<close> is the attribute's value \<open>None\<close>.\<close>

definition action_of :: "klass \<Rightarrow> int \<Rightarrow> error + string option" where
  "action_of k new =
     (if new = 0 then Inr (remote_action k)
      else if new = 1 then Inr (remote_action_newwin k)
      else if new = 2 then
        (if remote_action_newtab k = None then Inr (remote_action_newwin k)
         else Inr (remote_action_newtab k))
      else Inl (bad_new new))"

text \<open>
  The remote argument list: \<open>str.replace\<close> with the action \<open>None\<close> raises
  \<open>TypeError\<close> at the first argument; empty arguments are dropped.
\<close>

definition remote_arglist :: "klass \<Rightarrow> string \<Rightarrow> string option \<Rightarrow> error + string list" where
  "remote_arglist k url action =
     (case action of
        None \<Rightarrow> if remote_args k = [] then Inr [] else Inl TypeError
      | Some a \<Rightarrow>
          Inr (filter (\<lambda>arg. arg \<noteq> [])
                 (map (\<lambda>arg. replace ''%action'' a (replace ''%s'' url arg)) (remote_args k))))"

definition UnixBrowser_open ::
  "os \<Rightarrow> browser \<Rightarrow> string \<Rightarrow> int \<Rightarrow> bool \<Rightarrow> event list \<Rightarrow> bool result" where
  "UnixBrowser_open e b url new autoraise tr =
     (let tr1 = tr @ [Audit ''webbrowser.open'' url]
      in case action_of (klass b) new of
           Inl err \<Rightarrow> (tr1, Inl err)
         | Inr action \<Rightarrow>
             (case remote_arglist (klass b) url action of
                Inl err \<Rightarrow> (tr1, Inl err)
              | Inr arglist \<Rightarrow>
                  (case invoke e b arglist True autoraise tr1 of
                     (tr2, Inl err) \<Rightarrow> (tr2, Inl err)
                   | (tr2, Inr success) \<Rightarrow>
                       if \<not> success
                       then invoke e b (map (replace ''%s'' url) (args b)) False False tr2
                       else (tr2, Inr True))))"

text \<open>
  \<open>Konqueror.open\<close>, as the file has it: three \<open>try\<close> statements in a row. The first
  two have no \<open>else\<close> and only \<open>pass\<close> on \<open>OSError\<close>, so control always reaches the
  third, whose \<open>except\<close> and first \<open>else\<close> both return. The \<open>else\<close> blocks written
  after that belong to no statement that reaches them. An exception that is not an
  \<open>OSError\<close> leaves the method at the \<open>try\<close> that raised it.
\<close>

definition devnull_kw :: "bool \<Rightarrow> popen_kw" where
  "devnull_kw session =
     \<lparr>close_fds = True, stdin = DEVNULL, stdout = DEVNULL, stderr = DEVNULL,
      start_new_session = session\<rparr>"

text \<open>The third \<open>try\<close>: \<open>kfm -d url\<close>; the only one whose outcome is returned.\<close>

definition Konqueror_try_kfm :: "os \<Rightarrow> string \<Rightarrow> event list \<Rightarrow> bool result" where
  "Konqueror_try_kfm e url tr =
     (case spawn e tr [''kfm'', ''-d'', url] (devnull_kw True) of
        Inl err \<Rightarrow>
          if is_OSError err then (tr @ [Popen [''kfm'', ''-d'', url] (devnull_kw True)], Inr False)
          else (tr @ [Popen [''kfm'', ''-d'', url] (devnull_kw True)], Inl err)
      | Inr p \<Rightarrow> (tr @ [Popen [''kfm'', ''-d'', url] (devnull_kw True)], Inr (poll p = None)))"

text \<open>The second \<open>try\<close>: \<open>konqueror --silent url\<close>, then the third whatever happened.\<close>

definition Konqueror_try_konqueror :: "os \<Rightarrow> string \<Rightarrow> event list \<Rightarrow> bool result" where
  "Konqueror_try_konqueror e url tr =
     (case spawn e tr [''konqueror'', ''--silent'', url] (devnull_kw True) of
        Inl err \<Rightarrow>
          if is_OSError err
          then Konqueror_try_kfm e url
                 (tr @ [Popen [''konqueror'', ''--silent'', url] (devnull_kw True)])
          else (tr @ [Popen [''konqueror'', ''--silent'', url] (devnull_kw True)], Inl err)
      | Inr p \<Rightarrow>
          Konqueror_try_kfm e url
            (tr @ [Popen [''konqueror'', ''--silent'', url] (devnull_kw True)]))"

definition Konqueror_open ::
  "os \<Rightarrow> browser \<Rightarrow> string \<Rightarrow> int \<Rightarrow> bool \<Rightarrow> event list \<Rightarrow> bool result" where
  "Konqueror_open e b url new autoraise tr =
     (let tr1 = tr @ [Audit ''webbrowser.open'' url];
          action = (if new = 2 then ''newTab'' else ''openURL'')
      in case spawn e tr1 [''kfmclient'', action, url] (devnull_kw False) of
           Inl err \<Rightarrow>
             if is_OSError err
             then Konqueror_try_konqueror e url
                    (tr1 @ [Popen [''kfmclient'', action, url] (devnull_kw False)])
             else (tr1 @ [Popen [''kfmclient'', action, url] (devnull_kw False)], Inl err)
         | Inr p \<Rightarrow>
             Konqueror_try_konqueror e url
               (tr1 @ [Popen [''kfmclient'', action, url] (devnull_kw False)]))"

definition WindowsDefault_open ::
  "os \<Rightarrow> browser \<Rightarrow> string \<Rightarrow> int \<Rightarrow> bool \<Rightarrow> event list \<Rightarrow> bool result" where
  "WindowsDefault_open e b url new autoraise tr =
     (let tr1 = tr @ [Audit ''webbrowser.open'' url]
      in case startfile e tr1 url of
           Inr u \<Rightarrow> (tr1 @ [Startfile url], Inr True)
         | Inl err \<Rightarrow>
             if is_OSError err then (tr1 @ [Startfile url], Inr False)
             else (tr1 @ [Startfile url], Inl err))"

text \<open>\<open>MacOSXOSAScript.open\<close>: the script is written to a pipe to \<open>osascript\<close>.\<close>

definition osa_script :: "string \<Rightarrow> string \<Rightarrow> string" where
  "osa_script n url =
     (let quoted = replace [CHR 0x22] ''%22'' url
      in if n = ''default'' then ''open location '' @ [CHR 0x22] @ quoted @ [CHR 0x22]
         else [CHR 0x0A] @ replicate 19 (CHR '' '') @ ''tell application '' @ [CHR 0x22] @ n
              @ [CHR 0x22, CHR 0x0A] @ replicate 23 (CHR '' '') @ ''activate''
              @ [CHR 0x0A] @ replicate 23 (CHR '' '') @ ''open location '' @ [CHR 0x22] @ quoted
              @ [CHR 0x22, CHR 0x0A] @ replicate 19 (CHR '' '') @ ''end''
              @ [CHR 0x0A] @ replicate 19 (CHR '' ''))"

definition MacOSXOSAScript_open ::
  "os \<Rightarrow> browser \<Rightarrow> string \<Rightarrow> int \<Rightarrow> bool \<Rightarrow> event list \<Rightarrow> bool result" where
  "MacOSXOSAScript_open e b url new autoraise tr =
     (let script = osa_script (name b) url
      in case popen_w e tr ''osascript'' of
           None \<Rightarrow> (tr, Inr False)
         | Some osapipe \<Rightarrow>
             (let rc = osapipe script
              in (tr @ [Osascript script], Inr (rc = None \<or> rc = Some 0))))"

text \<open>Method resolution: which \<open>open\<close> an instance of each class runs.\<close>

definition browser_open ::
  "os \<Rightarrow> browser \<Rightarrow> string \<Rightarrow> int \<Rightarrow> bool \<Rightarrow> event list \<Rightarrow> bool result" where
  "browser_open e b url new autoraise tr =
     (if klass b = GenericBrowser then GenericBrowser_open e b url new autoraise tr
      else if klass b = BackgroundBrowser then BackgroundBrowser_open e b url new autoraise tr
      else if is_UnixBrowser (klass b) then UnixBrowser_open e b url new autoraise tr
      else if klass b = Konqueror then Konqueror_open e b url new autoraise tr
      else if klass b = WindowsDefault then WindowsDefault_open e b url new autoraise tr
      else if klass b = MacOSXOSAScript then MacOSXOSAScript_open e b url new autoraise tr
      else BaseBrowser_open tr)"

section \<open>The registry\<close>

text \<open>
  The module's globals: \<open>_browsers\<close> maps a lowercased name to the pair
  \<open>[klass, instance]\<close>, \<open>_tryorder\<close> is \<open>None\<close> until the first use, and
  \<open>_os_preferred_browser\<close> is what the desktop reports as the default.
\<close>

type_synonym descriptor = "klass option \<times> browser option"

record registry =
  browsers :: "string \<rightharpoonup> descriptor"
  tryorder :: "string list option"
  os_preferred_browser :: "string option"

text \<open>\<open>_os_preferred_browser and name in _os_preferred_browser\<close>\<close>

definition os_prefers :: "registry \<Rightarrow> string \<Rightarrow> bool" where
  "os_prefers st n =
     (case os_preferred_browser st of
        None \<Rightarrow> False
      | Some d \<Rightarrow> d \<noteq> [] \<and> contains n d)"

text \<open>
  The body of \<open>register\<close> after its check for \<open>_tryorder is None\<close>: the descriptor is
  stored and the name goes to the front or the back of the order.
\<close>

definition register_entry ::
  "registry \<Rightarrow> string \<Rightarrow> klass option \<Rightarrow> browser option \<Rightarrow> bool \<Rightarrow> registry" where
  "register_entry st n k inst preferred =
     st\<lparr>browsers := (browsers st)(lower n \<mapsto> (k, inst)),
        tryorder := map_option
          (\<lambda>order. if preferred \<or> os_prefers st n then n # order else order @ [n])
          (tryorder st)\<rparr>"

text \<open>
  \<open>_synthesize\<close>, with the \<open>register\<close> it calls as a parameter: inside
  \<open>register_standard_browsers\<close> the order is already a list, so \<open>register\<close> there is
  \<open>register_entry\<close>; everywhere else it is the full \<open>register\<close> below.
\<close>

definition synthesize_with ::
  "(registry \<Rightarrow> string \<Rightarrow> klass option \<Rightarrow> browser option \<Rightarrow> bool \<Rightarrow> registry \<times> (error + unit))
   \<Rightarrow> os \<Rightarrow> registry \<Rightarrow> string \<Rightarrow> bool \<Rightarrow> registry \<times> (error + descriptor)" where
  "synthesize_with reg e st browser preferred =
     (case split browser of
        [] \<Rightarrow> (st, Inl IndexError)
      | cmd # toks \<Rightarrow>
          if \<not> which e cmd then (st, Inr (None, None))
          else
            (case browsers st (lower (path_basename e cmd)) of
               None \<Rightarrow> (st, Inr (None, None))
             | Some command \<Rightarrow>
                 (case snd command of
                    None \<Rightarrow> (st, Inr (None, None))
                  | Some controller \<Rightarrow>
                      if lower (path_basename e cmd) = basename controller then
                        (case reg st browser None
                                (Some (controller\<lparr>name := browser,
                                                  basename := path_basename e browser\<rparr>))
                                preferred of
                           (st', Inl err) \<Rightarrow> (st', Inl err)
                         | (st', Inr u) \<Rightarrow>
                             (st', Inr (None,
                                Some (controller\<lparr>name := browser,
                                                 basename := path_basename e browser\<rparr>))))
                      else (st, Inr (None, None)))))"

definition register_initialized ::
  "registry \<Rightarrow> string \<Rightarrow> klass option \<Rightarrow> browser option \<Rightarrow> bool \<Rightarrow> registry \<times> (error + unit)" where
  "register_initialized st n k inst preferred = (register_entry st n k inst preferred, Inr ())"

subsection \<open>Probing the environment\<close>

text \<open>\<open>if shutil.which(n): register(n, None, inst)\<close>\<close>

definition register_found :: "os \<Rightarrow> string \<Rightarrow> browser \<Rightarrow> registry \<Rightarrow> registry" where
  "register_found e n inst st =
     (if which e n then register_entry st n None (Some inst) False else st)"

definition truthy :: "string option \<Rightarrow> bool" where
  "truthy v = (case v of None \<Rightarrow> False | Some s \<Rightarrow> s \<noteq> [])"

definition register_X_browsers :: "os \<Rightarrow> registry \<Rightarrow> registry" where
  "register_X_browsers e st =
     (let st1 = register_found e ''xdg-open'' (GenericBrowser_str e BackgroundBrowser ''xdg-open'') st;
          st2 = register_found e ''gio''
                  (GenericBrowser_argv e BackgroundBrowser ''gio'' [''open'', ''--'', ''%s'']) st1;
          st3 = (if environ e ''GNOME_DESKTOP_SESSION_ID'' \<noteq> None
                 then register_found e ''gvfs-open''
                        (GenericBrowser_str e BackgroundBrowser ''gvfs-open'') st2
                 else st2);
          st4 = (if environ e ''KDE_FULL_SESSION'' \<noteq> None \<and> which e ''kfmclient''
                 then register_entry st3 ''kfmclient'' (Some Konqueror)
                        (Some (BaseBrowser_init Konqueror ''kfmclient'')) False
                 else st3);
          st5 = register_found e ''x-www-browser''
                  (GenericBrowser_str e BackgroundBrowser ''x-www-browser'') st4;
          st6 = fold (\<lambda>b. register_found e b (BaseBrowser_init Mozilla b))
                  [''firefox'', ''iceweasel'', ''seamonkey'', ''mozilla-firefox'', ''mozilla''] st5;
          st7 = (if which e ''kfm''
                 then register_entry st6 ''kfm'' (Some Konqueror)
                        (Some (BaseBrowser_init Konqueror ''kfm'')) False
                 else if which e ''konqueror''
                 then register_entry st6 ''konqueror'' (Some Konqueror)
                        (Some (BaseBrowser_init Konqueror ''konqueror'')) False
                 else st6);
          st8 = register_found e ''epiphany'' (BaseBrowser_init Epiphany ''epiphany'') st7;
          st9 = fold (\<lambda>b. register_found e b (BaseBrowser_init Chrome b))
                  [''google-chrome'', ''chrome'', ''chromium'', ''chromium-browser''] st8;
          st10 = register_found e ''opera'' (BaseBrowser_init Opera ''opera'') st9
      in register_found e ''microsoft-edge'' (BaseBrowser_init Edge ''microsoft-edge'') st10)"

definition register_darwin :: "registry \<Rightarrow> registry" where
  "register_darwin st =
     (let st1 = register_entry st ''MacOSX'' None
                  (Some (BaseBrowser_init MacOSXOSAScript ''default'')) False;
          st2 = register_entry st1 ''chrome'' None
                  (Some (BaseBrowser_init MacOSXOSAScript ''chrome'')) False;
          st3 = register_entry st2 ''firefox'' None
                  (Some (BaseBrowser_init MacOSXOSAScript ''firefox'')) False
      in register_entry st3 ''safari'' None
           (Some (BaseBrowser_init MacOSXOSAScript ''safari'')) False)"

definition msedge_exe :: string where
  "msedge_exe = ''Microsoft'' @ [CHR 0x5C] @ ''Edge'' @ [CHR 0x5C] @ ''Application''
                @ [CHR 0x5C] @ ''msedge.exe''"

definition register_windows :: "os \<Rightarrow> registry \<Rightarrow> registry" where
  "register_windows e st =
     (let st1 = register_entry st ''windows-default'' (Some WindowsDefault) None False;
          edge64 = path_join e
                     (case environ e ''PROGRAMFILES(x86)'' of
                        Some v \<Rightarrow> v
                      | None \<Rightarrow> ''C:'' @ [CHR 0x5C] @ ''Program Files (x86)'')
                     msedge_exe;
          edge32 = path_join e
                     (case environ e ''PROGRAMFILES'' of
                        Some v \<Rightarrow> v
                      | None \<Rightarrow> ''C:'' @ [CHR 0x5C] @ ''Program Files'')
                     msedge_exe;
          st2 = fold (\<lambda>b. register_found e b (GenericBrowser_str e BackgroundBrowser b))
                  [''firefox'', ''seamonkey'', ''mozilla'', ''chrome'', ''opera'', edge64, edge32] st1
      in if which e ''MicrosoftEdge.exe''
         then register_entry st2 ''microsoft-edge'' None
                (Some (BaseBrowser_init Edge ''MicrosoftEdge.exe'')) False
         else st2)"

text \<open>
  The query for the desktop's default browser: four exceptions are caught, any other
  one leaves \<open>register_standard_browsers\<close>.
\<close>

definition query_default :: "os \<Rightarrow> registry \<Rightarrow> registry \<times> (error + unit)" where
  "query_default e st =
     (case check_output e [''xdg-settings'', ''get'', ''default-web-browser''] of
        Inr raw_result \<Rightarrow> (st\<lparr>os_preferred_browser := Some (strip raw_result)\<rparr>, Inr ())
      | Inl err \<Rightarrow>
          if err \<in> set [FileNotFoundError, CalledProcessError, PermissionError, NotADirectoryError]
          then (st, Inr ())
          else (st, Inl err))"

definition register_term :: "os \<Rightarrow> registry \<Rightarrow> registry" where
  "register_term e st =
     (let st1 = register_found e ''www-browser''
                  (GenericBrowser_str e GenericBrowser ''www-browser'') st;
          st2 = register_found e ''links'' (GenericBrowser_str e GenericBrowser ''links'') st1;
          st3 = register_found e ''elinks'' (BaseBrowser_init Elinks ''elinks'') st2;
          st4 = register_found e ''lynx'' (GenericBrowser_str e GenericBrowser ''lynx'') st3
      in register_found e ''w3m'' (GenericBrowser_str e GenericBrowser ''w3m'') st4)"

text \<open>The loop over the reversed entries of the \<open>BROWSER\<close> variable.\<close>

fun register_userchoices :: "os \<Rightarrow> registry \<Rightarrow> string list \<Rightarrow> registry \<times> (error + unit)" where
  "register_userchoices e st [] = (st, Inr ())"
| "register_userchoices e st (cmdline # rest) =
     (if cmdline \<noteq> [] then
        (case synthesize_with register_initialized e st cmdline True of
           (st1, Inl err) \<Rightarrow> (st1, Inl err)
         | (st1, Inr cmd) \<Rightarrow>
             if snd cmd = None
             then register_userchoices e
                    (register_entry st1 cmdline None
                       (Some (GenericBrowser_str e GenericBrowser cmdline)) True) rest
             else register_userchoices e st1 rest)
      else register_userchoices e st rest)"

definition register_BROWSER :: "os \<Rightarrow> registry \<Rightarrow> registry \<times> (error + unit)" where
  "register_BROWSER e st =
     (case environ e ''BROWSER'' of
        None \<Rightarrow> (st, Inr ())
      | Some v \<Rightarrow> register_userchoices e st (rev (split_sep (pathsep e) [] v)))"

definition register_standard_browsers :: "os \<Rightarrow> registry \<Rightarrow> registry \<times> (error + unit)" where
  "register_standard_browsers e st =
     (let st0 = st\<lparr>tryorder := Some []\<rparr>;
          st1 = (if sys_platform e = ''darwin'' then register_darwin st0 else st0);
          st2 = (if sys_platform e = ''serenityos''
                 then register_entry st1 ''Browser'' None
                        (Some (GenericBrowser_str e BackgroundBrowser ''Browser'')) False
                 else st1)
      in if is_win e then register_BROWSER e (register_windows e st2)
         else
           (case (if truthy (environ e ''DISPLAY'') \<or> truthy (environ e ''WAYLAND_DISPLAY'')
                  then (case query_default e st2 of
                          (st3, Inl err) \<Rightarrow> (st3, Inl err)
                        | (st3, Inr u) \<Rightarrow> (register_X_browsers e st3, Inr ()))
                  else (st2, Inr ())) of
              (st4, Inl err) \<Rightarrow> (st4, Inl err)
            | (st4, Inr u) \<Rightarrow>
                register_BROWSER e
                  (if truthy (environ e ''TERM'') then register_term e st4 else st4)))"

subsection \<open>\<open>register\<close>, \<open>_synthesize\<close> and \<open>get\<close>\<close>

text \<open>The lazy initialisation every entry point starts with.\<close>

definition ensure_registered :: "os \<Rightarrow> registry \<Rightarrow> registry \<times> (error + unit)" where
  "ensure_registered e st =
     (if tryorder st = None then register_standard_browsers e st else (st, Inr ()))"

definition register ::
  "os \<Rightarrow> registry \<Rightarrow> string \<Rightarrow> klass option \<Rightarrow> browser option \<Rightarrow> bool
   \<Rightarrow> registry \<times> (error + unit)" where
  "register e st n k inst preferred =
     (case ensure_registered e st of
        (st1, Inl err) \<Rightarrow> (st1, Inl err)
      | (st1, Inr u) \<Rightarrow> (register_entry st1 n k inst preferred, Inr ()))"

definition synthesize ::
  "os \<Rightarrow> registry \<Rightarrow> string \<Rightarrow> bool \<Rightarrow> registry \<times> (error + descriptor)" where
  "synthesize e st browser preferred = synthesize_with (register e) e st browser preferred"

text \<open>
  The ad-hoc launcher for a candidate that contains \<open>%s\<close>. \<open>browser[-1]\<close> raises
  \<open>IndexError\<close> on an empty list.
\<close>

definition adhoc :: "os \<Rightarrow> string \<Rightarrow> error + browser" where
  "adhoc e browser =
     (case shlex_split e browser of
        Inl err \<Rightarrow> Inl err
      | Inr argv \<Rightarrow>
          if argv = [] then Inl IndexError
          else if last argv = ''&'' then GenericBrowser_list e BackgroundBrowser (butlast argv)
          else GenericBrowser_list e GenericBrowser argv)"

text \<open>
  The loop of \<open>get\<close> over its candidates. \<open>_synthesize\<close> changes the registry only when
  it returns an instance, and then \<open>get\<close> returns; so the loop goes on with the list it
  started with.
\<close>

fun get_loop :: "os \<Rightarrow> registry \<Rightarrow> string list \<Rightarrow> registry \<times> (error + browser)" where
  "get_loop e st [] = (st, Inl (Error ''could not locate runnable browser''))"
| "get_loop e st (browser # rest) =
     (if contains ''%s'' browser then (st, adhoc e browser)
      else
        (case (case browsers st (lower browser) of
                 Some command \<Rightarrow> (st, Inr command)
               | None \<Rightarrow> synthesize e st browser False) of
           (st1, Inl err) \<Rightarrow> (st1, Inl err)
         | (st1, Inr command) \<Rightarrow>
             (case snd command of
                Some inst \<Rightarrow> (st1, Inr inst)
              | None \<Rightarrow>
                  (case fst command of
                     Some k \<Rightarrow> (st1, instantiate k)
                   | None \<Rightarrow> get_loop e st1 rest))))"

definition get :: "os \<Rightarrow> registry \<Rightarrow> string option \<Rightarrow> registry \<times> (error + browser)" where
  "get e st using =
     (case ensure_registered e st of
        (st1, Inl err) \<Rightarrow> (st1, Inl err)
      | (st1, Inr u) \<Rightarrow>
          (case using of
             Some b \<Rightarrow> get_loop e st1 [b]
           | None \<Rightarrow>
               (case tryorder st1 of
                  None \<Rightarrow> (st1, Inl TypeError)
                | Some order \<Rightarrow> get_loop e st1 order)))"

subsection \<open>The top-level \<open>open\<close>\<close>

text \<open>
  \<open>for name in _tryorder\<close> walks the list by position while \<open>get(name)\<close> may register
  a synthesized connector, which lengthens the very list being walked. The loop is therefore
  a recursion on the position over the current registry. It ends because a registration
  happens only for a name that had no descriptor and gives it one: the number of names
  without a descriptor from the position on goes down, or stays while the position moves up.
\<close>

definition unresolved :: "registry \<Rightarrow> nat \<Rightarrow> nat" where
  "unresolved st i =
     (case tryorder st of
        None \<Rightarrow> 0
      | Some order \<Rightarrow> length (filter (\<lambda>n. browsers st (lower n) = None) (drop i order)))"

definition remaining :: "registry \<Rightarrow> nat \<Rightarrow> nat" where
  "remaining st i = (case tryorder st of None \<Rightarrow> 0 | Some order \<Rightarrow> length order - i)"

lemma ensure_registered_initialized:
  "tryorder st = Some order \<Longrightarrow> ensure_registered e st = (st, Inr ())"
  by (simp add: ensure_registered_def)

lemma register_initialized_state:
  "tryorder st = Some order \<Longrightarrow> register e st n k inst p = (register_entry st n k inst p, Inr ())"
  by (simp add: register_def ensure_registered_def)

lemma synthesize_effect:
  assumes "tryorder st = Some order" and "synthesize e st n p = (st', r)"
  shows "st' = st \<or> (\<exists>c. st' = register_entry st n None (Some c) p)"
  using assms
  by (auto simp: synthesize_def synthesize_with_def register_initialized_state
           split: list.splits if_splits option.splits prod.splits sum.splits)

lemma get_loop_single_effect:
  assumes "tryorder st = Some order" and "get_loop e st [n] = (st', r)"
  shows "st' = st \<or> (browsers st (lower n) = None \<and> (\<exists>c. st' = register_entry st n None (Some c) False))"
proof (cases "contains ''%s'' n")
  case True
  with assms show ?thesis by simp
next
  case False
  show ?thesis
  proof (cases "browsers st (lower n)")
    case (Some d)
    with assms False show ?thesis
      by (auto split: option.splits)
  next
    case None
    obtain s1 r1 where syn: "synthesize e st n False = (s1, r1)" by (cases "synthesize e st n False")
    from synthesize_effect[OF assms(1) syn]
    have eff: "s1 = st \<or> (\<exists>c. s1 = register_entry st n None (Some c) False)" .
    from assms(2) False None syn have "st' = s1"
      by (auto split: sum.splits option.splits prod.splits)
    with eff None show ?thesis by auto
  qed
qed

lemma get_effect:
  assumes "tryorder st = Some order" and "get e st (Some n) = (st', r)"
  shows "st' = st \<or> (browsers st (lower n) = None \<and> (\<exists>c. st' = register_entry st n None (Some c) False))"
  using assms get_loop_single_effect[of st order e n st' r]
  by (simp add: get_def ensure_registered_def)

lemma open_loop_decreases:
  assumes ord: "tryorder st = Some order" and i: "i < length order"
    and g: "get e st (Some (order ! i)) = (st', r)"
  shows "unresolved st' (Suc i) < unresolved st i
         \<or> (unresolved st' (Suc i) = unresolved st i \<and> remaining st' (Suc i) < remaining st i)"
proof -
  let ?n = "order ! i"
  have dr: "drop i order = ?n # drop (Suc i) order"
    using i by (simp add: Cons_nth_drop_Suc)
  from get_effect[OF ord g]
  consider (same) "st' = st"
    | (reg) c where "browsers st (lower ?n) = None" "st' = register_entry st ?n None (Some c) False"
    by blast
  then show ?thesis
  proof cases
    case same
    have "unresolved st (Suc i) \<le> unresolved st i"
      using ord dr by (simp add: unresolved_def)
    moreover have "remaining st (Suc i) < remaining st i"
      using ord i by (simp add: remaining_def)
    ultimately show ?thesis using same by auto
  next
    case reg
    let ?P = "\<lambda>m. browsers st (lower m) = None"
    let ?P' = "\<lambda>m. browsers st' (lower m) = None"
    have imp: "\<And>m. ?P' m \<Longrightarrow> ?P m"
      using reg(2) by (auto simp: register_entry_def split: if_splits)
    have notn: "\<not> ?P' ?n" using reg(2) by (simp add: register_entry_def)
    have le: "\<And>xs. length (filter ?P' xs) \<le> length (filter ?P xs)"
    proof -
      fix xs show "length (filter ?P' xs) \<le> length (filter ?P xs)"
        using imp by (induction xs) auto
    qed
    have old: "unresolved st i = Suc (length (filter ?P (drop (Suc i) order)))"
      using ord dr reg(1) by (simp add: unresolved_def)
    have "tryorder st' = Some (?n # order) \<or> tryorder st' = Some (order @ [?n])"
      using reg(2) ord by (simp add: register_entry_def)
    then have "unresolved st' (Suc i) \<le> length (filter ?P (drop (Suc i) order))"
    proof
      assume "tryorder st' = Some (?n # order)"
      then have "unresolved st' (Suc i) = length (filter ?P' (drop i order))"
        by (simp add: unresolved_def)
      also have "\<dots> = length (filter ?P' (drop (Suc i) order))"
        using dr notn by simp
      finally show ?thesis using le[of "drop (Suc i) order"] by simp
    next
      assume "tryorder st' = Some (order @ [?n])"
      then have "unresolved st' (Suc i) = length (filter ?P' (drop (Suc i) order @ [?n]))"
        using i by (simp add: unresolved_def)
      also have "\<dots> = length (filter ?P' (drop (Suc i) order))"
        using notn by simp
      finally show ?thesis using le[of "drop (Suc i) order"] by simp
    qed
    with old show ?thesis by simp
  qed
qed

function open_loop ::
  "os \<Rightarrow> string \<Rightarrow> int \<Rightarrow> bool \<Rightarrow> nat \<Rightarrow> registry \<Rightarrow> event list \<Rightarrow> registry \<times> bool result" where
  "open_loop e url new autoraise i st tr =
     (case tryorder st of
        None \<Rightarrow> (st, tr, Inl TypeError)
      | Some order \<Rightarrow>
          if i < length order then
            (case get e st (Some (order ! i)) of
               (st1, Inl err) \<Rightarrow> (st1, tr, Inl err)
             | (st1, Inr b) \<Rightarrow>
                 (case browser_open e b url new autoraise tr of
                    (tr1, Inl err) \<Rightarrow> (st1, tr1, Inl err)
                  | (tr1, Inr ok) \<Rightarrow>
                      if ok then (st1, tr1, Inr True)
                      else open_loop e url new autoraise (Suc i) st1 tr1))
          else (st, tr, Inr False))"
  by pat_completeness auto
termination
  apply (relation "inv_image (less_than <*lex*> less_than)
         (\<lambda>(e, url, new, autoraise, i, st, tr). (unresolved st i, remaining st i))")
   apply (intro wf_inv_image wf_lex_prod wf_less_than)
  subgoal for e url new autoraise i st tr order st1 r
    using open_loop_decreases[of st order i e st1 r] by auto
  done

declare open_loop.simps [simp del]

definition open_top ::
  "os \<Rightarrow> registry \<Rightarrow> string \<Rightarrow> int \<Rightarrow> bool \<Rightarrow> event list \<Rightarrow> registry \<times> bool result" where
  "open_top e st url new autoraise tr =
     (case ensure_registered e st of
        (st1, Inl err) \<Rightarrow> (st1, tr, Inl err)
      | (st1, Inr u) \<Rightarrow> open_loop e url new autoraise 0 st1 tr)"

definition open_new :: "os \<Rightarrow> registry \<Rightarrow> string \<Rightarrow> event list \<Rightarrow> registry \<times> bool result" where
  "open_new e st url tr = open_top e st url 1 True tr"

definition open_new_tab :: "os \<Rightarrow> registry \<Rightarrow> string \<Rightarrow> event list \<Rightarrow> registry \<times> bool result" where
  "open_new_tab e st url tr = open_top e st url 2 True tr"

section \<open>Observations and example environments\<close>

text \<open>
  What a monitor sees of a trace: the URLs of the \<open>webbrowser.open\<close> audit events, in
  order.
\<close>

fun audits :: "event list \<Rightarrow> string list" where
  "audits [] = []"
| "audits (Audit ev u # tr) = (if ev = ''webbrowser.open'' then u # audits tr else audits tr)"
| "audits (ev # tr) = audits tr"

text \<open>
  The trace left by calling \<open>open\<close> on a list of connectors, one after the other.
\<close>

fun run_all :: "os \<Rightarrow> string \<Rightarrow> int \<Rightarrow> bool \<Rightarrow> browser list \<Rightarrow> event list \<Rightarrow> event list" where
  "run_all e url new autoraise [] tr = tr"
| "run_all e url new autoraise (b # bs) tr =
     run_all e url new autoraise bs (fst (browser_open e b url new autoraise tr))"

text \<open>
  Example environments for concrete runs. In \<open>linux_env\<close> every executable is found on
  the search path but every spawn fails with \<open>FileNotFoundError\<close> (the executable went
  away after it was registered); \<open>shlex.split\<close> is whitespace splitting, which is what it
  does on a command line without quotes or backslashes. Single fields are overridden where
  a run needs another behaviour.
\<close>

definition exited :: "int \<Rightarrow> proc" where
  "exited rc = \<lparr>poll = Some rc, wait = rc, wait5 = Some rc\<rparr>"

definition running :: proc where
  "running = \<lparr>poll = None, wait = 0, wait5 = None\<rparr>"

definition linux_env :: os where
  "linux_env =
     \<lparr>sys_platform = ''linux'',
      environ = Map.empty,
      pathsep = CHR '':'',
      which = (\<lambda>cmd. True),
      path_basename = posix_basename,
      path_join = (\<lambda>a b. a @ ''/'' @ b),
      shlex_split = (\<lambda>s. Inr (split s)),
      check_output = (\<lambda>argv. Inl FileNotFoundError),
      spawn = (\<lambda>h argv kw. Inl FileNotFoundError),
      startfile = (\<lambda>h u. Inl OSError),
      popen_w = (\<lambda>h cmd. None)\<rparr>"

definition darwin_env :: os where
  "darwin_env = linux_env\<lparr>sys_platform := ''darwin'', popen_w := (\<lambda>h cmd. Some (\<lambda>script. None))\<rparr>"


text \<open>An initialised registry with no connector.\<close>

definition empty_registry :: registry where
  "empty_registry = \<lparr>browsers = Map.empty, tryorder = Some [], os_preferred_browser = None\<rparr>"

text \<open>
  Registries built by \<open>register\<close> on the empty one: a Konqueror factory without an
  instance under \<open>kfm\<close>; a Mozilla template under \<open>firefox\<close>; and two direct-command
  connectors \<open>a\<close> and \<open>b\<close>, with an environment where \<open>a\<close> exits with status 1 and
  \<open>b\<close> with status 0.
\<close>

definition factory_registry :: registry where
  "factory_registry = register_entry empty_registry ''kfm'' (Some Konqueror) None False"

definition firefox_registry :: registry where
  "firefox_registry =
     register_entry empty_registry ''firefox'' None (Some (BaseBrowser_init Mozilla ''firefox'')) False"

definition ab_env :: os where
  "ab_env = linux_env\<lparr>spawn := (\<lambda>h argv kw.
     if argv \<noteq> [] \<and> hd argv = ''b'' then Inr (exited 0) else Inr (exited 1))\<rparr>"

definition ab_registry :: registry where
  "ab_registry =
     register_entry
       (register_entry empty_registry ''a'' None
          (Some (GenericBrowser_str linux_env GenericBrowser ''a'')) False)
       ''b'' None (Some (GenericBrowser_str linux_env GenericBrowser ''b'')) False"


section \<open>Audit events of the connectors\<close>

lemma audits_append: "audits (tr @ tr') = audits tr @ audits tr'"
  by (induction tr rule: audits.induct) auto

lemma MacOSXOSAScript_open_audits:
  "audits (fst (MacOSXOSAScript_open e b url new autoraise tr)) = audits tr"
  by (simp add: MacOSXOSAScript_open_def Let_def audits_append split: option.splits)

lemma GenericBrowser_open_audits:
  "audits (fst (GenericBrowser_open e b url new autoraise tr)) = audits tr @ [url]"
  by (simp add: GenericBrowser_open_def Let_def audits_append split: sum.splits)

lemma BackgroundBrowser_open_audits:
  "audits (fst (BackgroundBrowser_open e b url new autoraise tr)) = audits tr @ [url]"
  by (simp add: BackgroundBrowser_open_def Let_def audits_append split: sum.splits)

lemma invoke_audits:
  "audits (fst (invoke e b arglist remote autoraise tr)) = audits tr"
  by (simp add: invoke_def Let_def audits_append split: sum.splits option.splits)

lemma UnixBrowser_open_audits:
  "audits (fst (UnixBrowser_open e b url new autoraise tr)) = audits tr @ [url]"
proof -
  let ?tr1 = "tr @ [Audit ''webbrowser.open'' url]"
  have a1: "audits ?tr1 = audits tr @ [url]" by (simp add: audits_append)
  show ?thesis
  proof (cases "action_of (klass b) new")
    case (Inl err)
    then show ?thesis by (simp add: UnixBrowser_open_def a1)
  next
    case (Inr action)
    note act = this
    show ?thesis
    proof (cases "remote_arglist (klass b) url action")
      case (Inl err)
      with act show ?thesis by (simp add: UnixBrowser_open_def a1)
    next
      case (Inr arglist)
      obtain tr2 r where inv: "invoke e b arglist True autoraise ?tr1 = (tr2, r)"
        by (cases "invoke e b arglist True autoraise ?tr1")
      have a2: "audits tr2 = audits tr @ [url]"
        using invoke_audits[of e b arglist True autoraise ?tr1] inv a1 by simp
      show ?thesis
      proof (cases r)
        case (Inl err)
        with act Inr inv a2 show ?thesis by (simp add: UnixBrowser_open_def)
      next
        case (Inr success)
        with act \<open>remote_arglist (klass b) url action = Inr arglist\<close> inv a2 show ?thesis
          by (simp add: UnixBrowser_open_def invoke_audits)
      qed
    qed
  qed
qed

lemma Konqueror_open_audits:
  "audits (fst (Konqueror_open e b url new autoraise tr)) = audits tr @ [url]"
  by (simp add: Konqueror_open_def Konqueror_try_konqueror_def Konqueror_try_kfm_def Let_def audits_append split: sum.splits)

lemma WindowsDefault_open_audits:
  "audits (fst (WindowsDefault_open e b url new autoraise tr)) = audits tr @ [url]"
  by (simp add: WindowsDefault_open_def Let_def audits_append split: sum.splits)


text \<open>
  So every connector but the OSA-script one (and the abstract base class, whose \<open>open\<close>
  only raises) emits exactly one audit event with the URL, whatever the outcome.
\<close>

lemma browser_open_audits:
  assumes "klass b \<noteq> MacOSXOSAScript" and "klass b \<noteq> BaseBrowser"
  shows "audits (fst (browser_open e b url new autoraise tr)) = audits tr @ [url]"
  using assms
  by (cases "klass b")
     (simp_all add: browser_open_def GenericBrowser_open_audits BackgroundBrowser_open_audits
        UnixBrowser_open_audits Konqueror_open_audits WindowsDefault_open_audits)

section \<open>Auxiliary facts\<close>

lemma action_of_bad:
  "new \<noteq> 0 \<Longrightarrow> new \<noteq> 1 \<Longrightarrow> new \<noteq> 2 \<Longrightarrow> action_of k new = Inl (bad_new new)"
  by (simp add: action_of_def)


text \<open>
  Once assigned, \<open>_tryorder\<close> is never \<open>None\<close> again: every step of the probing keeps
  the registry initialised, also when the probing ends with an exception.
\<close>

definition initialized :: "registry \<Rightarrow> bool" where
  "initialized st = (tryorder st \<noteq> None)"

lemma register_entry_initialized:
  "initialized st \<Longrightarrow> initialized (register_entry st n k inst p)"
  by (auto simp: register_entry_def initialized_def)

lemma register_found_initialized:
  "initialized st \<Longrightarrow> initialized (register_found e n inst st)"
  by (simp add: register_found_def register_entry_initialized)

lemma fold_register_found_initialized:
  "initialized st \<Longrightarrow> initialized (fold (\<lambda>b. register_found e b (f b)) bs st)"
  by (induction bs arbitrary: st) (simp_all add: register_found_initialized)

lemmas initialized_steps =
  register_entry_initialized register_found_initialized fold_register_found_initialized

lemma register_X_browsers_initialized:
  "initialized st \<Longrightarrow> initialized (register_X_browsers e st)"
  by (simp add: register_X_browsers_def Let_def initialized_steps)

lemma register_darwin_initialized:
  "initialized st \<Longrightarrow> initialized (register_darwin st)"
  by (simp add: register_darwin_def Let_def initialized_steps)

lemma register_windows_initialized:
  "initialized st \<Longrightarrow> initialized (register_windows e st)"
  by (simp add: register_windows_def Let_def initialized_steps)

lemma register_term_initialized:
  "initialized st \<Longrightarrow> initialized (register_term e st)"
  by (simp add: register_term_def Let_def initialized_steps)

lemma query_default_initialized:
  "initialized st \<Longrightarrow> initialized (fst (query_default e st))"
  by (simp add: query_default_def initialized_def split: sum.splits)

lemma synthesize_with_initialized:
  "initialized st \<Longrightarrow> initialized (fst (synthesize_with register_initialized e st s p))"
  by (auto simp: synthesize_with_def register_initialized_def register_entry_initialized
        split: list.splits option.splits)

lemma register_userchoices_initialized:
  "initialized st \<Longrightarrow> initialized (fst (register_userchoices e st cs))"
proof (induction cs arbitrary: st)
  case Nil
  then show ?case by simp
next
  case (Cons c cs)
  show ?case
  proof (cases "c = []")
    case True
    with Cons show ?thesis by simp
  next
    case False
    obtain st1 r where syn: "synthesize_with register_initialized e st c True = (st1, r)"
      by (cases "synthesize_with register_initialized e st c True")
    have i1: "initialized st1"
      using synthesize_with_initialized [OF Cons.prems, of e c True] syn by simp
    show ?thesis
    proof (cases r)
      case (Inl err)
      with False syn i1 show ?thesis by simp
    next
      case (Inr cmd)
      with False syn i1 Cons.IH show ?thesis
        by (simp add: register_entry_initialized)
    qed
  qed
qed

lemma register_BROWSER_initialized:
  "initialized st \<Longrightarrow> initialized (fst (register_BROWSER e st))"
  by (simp add: register_BROWSER_def register_userchoices_initialized split: option.splits)

lemma register_standard_browsers_initialized:
  "initialized (fst (register_standard_browsers e st))"
proof -
  have i0: "initialized (st\<lparr>tryorder := Some []\<rparr>)" by (simp add: initialized_def)
  define st2 where "st2 =
     (if sys_platform e = ''serenityos''
      then register_entry
             (if sys_platform e = ''darwin'' then register_darwin (st\<lparr>tryorder := Some []\<rparr>)
              else st\<lparr>tryorder := Some []\<rparr>)
             ''Browser'' None (Some (GenericBrowser_str e BackgroundBrowser ''Browser'')) False
      else (if sys_platform e = ''darwin'' then register_darwin (st\<lparr>tryorder := Some []\<rparr>)
            else st\<lparr>tryorder := Some []\<rparr>))"
  have i2: "initialized st2"
    unfolding st2_def using i0 by (simp add: register_darwin_initialized register_entry_initialized)
  have rsb: "register_standard_browsers e st =
     (if is_win e then register_BROWSER e (register_windows e st2)
      else
        (case (if truthy (environ e ''DISPLAY'') \<or> truthy (environ e ''WAYLAND_DISPLAY'')
               then (case query_default e st2 of
                       (st3, Inl err) \<Rightarrow> (st3, Inl err)
                     | (st3, Inr u) \<Rightarrow> (register_X_browsers e st3, Inr ()))
               else (st2, Inr ())) of
           (st4, Inl err) \<Rightarrow> (st4, Inl err)
         | (st4, Inr u) \<Rightarrow>
             register_BROWSER e
               (if truthy (environ e ''TERM'') then register_term e st4 else st4)))"
    by (simp add: register_standard_browsers_def Let_def st2_def)
  show ?thesis
  proof (cases "is_win e")
    case True
    with rsb i2 show ?thesis
      by (simp add: register_BROWSER_initialized register_windows_initialized)
  next
    case False
    obtain st3 r3 where q: "query_default e st2 = (st3, r3)" by (cases "query_default e st2")
    have i3: "initialized st3" using query_default_initialized [OF i2, of e] q by simp
    show ?thesis
      using False rsb i2 i3 q
      by (auto simp: register_BROWSER_initialized register_X_browsers_initialized
            register_term_initialized split: sum.splits)
  qed
qed

lemma ensure_registered_result:
  "ensure_registered e st = (st1, r) \<Longrightarrow> initialized st1"
  using register_standard_browsers_initialized [of e st]
  by (auto simp: ensure_registered_def initialized_def split: if_splits)

lemma run_all_snoc:
  "run_all e url new autoraise (bs @ [b]) tr =
   fst (browser_open e b url new autoraise (run_all e url new autoraise bs tr))"
  by (induction bs arbitrary: tr) simp_all

lemma open_loop_failing_prefix:
  assumes ord: "tryorder st = Some (pre @ rest)"
    and res: "\<forall>m\<in>set pre. get e st (Some m) = (st, Inr (c m))"
    and fails: "\<forall>j<length pre.
        snd (browser_open e (c (pre ! j)) url new autoraise
               (run_all e url new autoraise (map c (take j pre)) tr)) = Inr False"
    and j: "j \<le> length pre"
  shows "open_loop e url new autoraise 0 st tr =
         open_loop e url new autoraise j st (run_all e url new autoraise (map c (take j pre)) tr)"
  using j
proof (induction j)
  case 0
  show ?case by simp
next
  case (Suc j)
  let ?T = "run_all e url new autoraise (map c (take j pre)) tr"
  from Suc.prems have lt: "j < length pre" by simp
  then have nth: "(pre @ rest) ! j = pre ! j" by (simp add: nth_append)
  have g: "get e st (Some (pre ! j)) = (st, Inr (c (pre ! j)))"
    using res lt by simp
  obtain T' where bo: "browser_open e (c (pre ! j)) url new autoraise ?T = (T', Inr False)"
    using fails lt by (metis prod.collapse)
  have tk: "take (Suc j) pre = take j pre @ [pre ! j]"
    using lt by (simp add: take_Suc_conv_app_nth)
  have T': "run_all e url new autoraise (map c (take (Suc j) pre)) tr = T'"
    using bo by (simp add: tk run_all_snoc)
  have "open_loop e url new autoraise j st ?T = open_loop e url new autoraise (Suc j) st T'"
    using ord lt nth g bo by (subst open_loop.simps) simp
  with Suc.IH lt T' show ?case by simp
qed

lemma ab_registry_simps:
  "tryorder ab_registry = Some [''a'', ''b'']"
  "browsers ab_registry ''a'' = Some (None, Some (GenericBrowser_str linux_env GenericBrowser ''a''))"
  "browsers ab_registry ''b'' = Some (None, Some (GenericBrowser_str linux_env GenericBrowser ''b''))"
  by (simp_all add: ab_registry_def empty_registry_def register_entry_def os_prefers_def
        lower_def char_lower_def)

lemma ab_get:
  "get e ab_registry (Some ''a'') = (ab_registry, Inr (GenericBrowser_str linux_env GenericBrowser ''a''))"
  "get e ab_registry (Some ''b'') = (ab_registry, Inr (GenericBrowser_str linux_env GenericBrowser ''b''))"
  by (simp_all add: get_def ensure_registered_def ab_registry_simps lower_def char_lower_def)

lemma ab_open:
  "browser_open ab_env (GenericBrowser_str linux_env GenericBrowser ''a'') ''http://example.org'' 0 True h
     = (h @ [Audit ''webbrowser.open'' ''http://example.org'',
             Popen [''a'', ''http://example.org''] (plain_kw False)], Inr False)"
  "browser_open ab_env (GenericBrowser_str linux_env GenericBrowser ''b'') ''http://example.org'' 0 True h
     = (h @ [Audit ''webbrowser.open'' ''http://example.org'',
             Popen [''b'', ''http://example.org''] (plain_kw False)], Inr True)"
  "browser_open linux_env (GenericBrowser_str linux_env GenericBrowser ''a'') ''http://example.org'' 0 True h
     = (h @ [Audit ''webbrowser.open'' ''http://example.org'',
             Popen [''a'', ''http://example.org''] (plain_kw False)], Inr False)"
  "browser_open linux_env (GenericBrowser_str linux_env GenericBrowser ''b'') ''http://example.org'' 0 True h
     = (h @ [Audit ''webbrowser.open'' ''http://example.org'',
             Popen [''b'', ''http://example.org''] (plain_kw False)], Inr False)"
  by (simp_all add: browser_open_def GenericBrowser_open_def GenericBrowser_str_def ab_env_def
        linux_env_def exited_def replace.simps)

section \<open>The claims\<close>

text \<open>
  \<^bold>\<open>C1\<close> Every connector's \<open>open\<close> should emit exactly one \<open>webbrowser.open\<close> audit
  event carrying the URL. \<open>MacOSXOSAScript.open\<close> has no \<open>sys.audit\<close> call at all, unlike
  every other \<open>open\<close> of the module (see the lemmas above): opening a URL with the
  \<open>default\<close> OSA-script connector writes the script, returns true, and the trace holds no
  audit event.
\<close>

theorem MacOSXOSAScript_open_emits_no_audit:
  "browser_open darwin_env (BaseBrowser_init MacOSXOSAScript ''default'')
     ''http://example.org'' 0 True []
   = ([Osascript (''open location '' @ [CHR 0x22] @ ''http://example.org'' @ [CHR 0x22])],
      Inr True)
   \<and> audits (fst (browser_open darwin_env (BaseBrowser_init MacOSXOSAScript ''default'')
                     ''http://example.org'' 0 True [])) = []"
  by (simp add: browser_open_def BaseBrowser_init_def MacOSXOSAScript_open_def osa_script_def
        darwin_env_def linux_env_def replace.simps)

text \<open>
  \<^bold>\<open>C2\<close> A launch failure should come back as \<open>False\<close>, never as an exception.
  \<open>UnixBrowser._invoke\<close> calls \<open>Popen\<close> outside any \<open>try\<close>, unlike
  \<open>GenericBrowser.open\<close> and \<open>BackgroundBrowser.open\<close>: with a Mozilla connector whose
  executable is missing at spawn time, \<open>open\<close> raises \<open>FileNotFoundError\<close> in the remote
  phase.
\<close>

theorem UnixBrowser_open_propagates_spawn_fault:
  "browser_open linux_env (BaseBrowser_init Mozilla ''firefox'') ''http://example.org'' 0 True []
   = ([Audit ''webbrowser.open'' ''http://example.org'',
       Popen [''firefox'', ''http://example.org''] (invoke_kw Mozilla True)],
      Inl FileNotFoundError)"
  by (simp add: browser_open_def BaseBrowser_init_def UnixBrowser_open_def action_of_def
        remote_arglist_def invoke_def raise_opt_of_def linux_env_def replace.simps)

text \<open>
  \<^bold>\<open>C3\<close> as stated fails in "registers it as preferred": \<open>get\<close> calls the synthesis
  with \<open>preferred\<close> left at false, and the new name goes to the back of the order.
\<close>

theorem synthesize_from_get_appends:
  "get linux_env firefox_registry (Some ''/usr/bin/firefox'')
     = (firefox_registry
          \<lparr>browsers := (browsers firefox_registry)
             (''/usr/bin/firefox'' \<mapsto>
                (None, Some \<lparr>klass = Mozilla, name = ''/usr/bin/firefox'', basename = ''firefox'',
                             args = [''%s'']\<rparr>)),
           tryorder := Some [''firefox'', ''/usr/bin/firefox'']\<rparr>,
        Inr \<lparr>klass = Mozilla, name = ''/usr/bin/firefox'', basename = ''firefox'',
             args = [''%s'']\<rparr>)"
  by (simp add: get_def ensure_registered_def firefox_registry_def empty_registry_def
        register_entry_def synthesize_def synthesize_with_def register_def linux_env_def
        lower_def char_lower_def split_def is_space_def posix_basename_def BaseBrowser_init_def
        os_prefers_def)

text \<open>
  \<^bold>\<open>C3\<close>, amended: on an initialised registry, for a command string whose first
  token is on the search path and whose basename (lowercased) is registered with an
  instance whose \<open>basename\<close> is that lowercased name, the synthesis returns a copy of the
  instance with \<open>name\<close> the full string and \<open>basename\<close> the string's base filename, and
  registers it under the full string (lowercased as the key): at the front of the order
  when \<open>preferred\<close> is set or the desktop's default names it, else at the back. When the
  token is not found or its basename is not registered, the synthesis yields no connector
  and changes nothing.
\<close>

theorem synthesize_template:
  assumes init: "tryorder st = Some order"
    and tok: "split s = cmd # toks"
  shows "(which e cmd
          \<and> browsers st (lower (path_basename e cmd)) = Some (k, Some c)
          \<and> basename c = lower (path_basename e cmd)
          \<longrightarrow> synthesize e st s preferred
              = (st\<lparr>browsers := (browsers st)
                      (lower s \<mapsto> (None, Some (c\<lparr>name := s, basename := path_basename e s\<rparr>))),
                    tryorder := Some (if preferred \<or> os_prefers st s then s # order
                                      else order @ [s])\<rparr>,
                 Inr (None, Some (c\<lparr>name := s, basename := path_basename e s\<rparr>))))
       \<and> (\<not> which e cmd \<or> browsers st (lower (path_basename e cmd)) = None
          \<longrightarrow> synthesize e st s preferred = (st, Inr (None, None)))"
  using assms
  by (auto simp: synthesize_def synthesize_with_def register_initialized_state
        register_entry_def)

theorem synthesize_template_witness:
  "synthesize linux_env firefox_registry ''/usr/bin/firefox'' True
     = (firefox_registry
          \<lparr>browsers := (browsers firefox_registry)
             (''/usr/bin/firefox'' \<mapsto>
                (None, Some \<lparr>klass = Mozilla, name = ''/usr/bin/firefox'', basename = ''firefox'',
                             args = [''%s'']\<rparr>)),
           tryorder := Some [''/usr/bin/firefox'', ''firefox'']\<rparr>,
        Inr (None, Some \<lparr>klass = Mozilla, name = ''/usr/bin/firefox'', basename = ''firefox'',
                          args = [''%s'']\<rparr>))
   \<and> synthesize linux_env firefox_registry ''/usr/bin/netscape'' True
     = (firefox_registry, Inr (None, None))"
proof -
  have init: "tryorder firefox_registry = Some [''firefox'']"
    by (simp add: firefox_registry_def empty_registry_def register_entry_def os_prefers_def)
  have t1: "split ''/usr/bin/firefox'' = ''/usr/bin/firefox'' # []"
    by (simp add: split_def is_space_def)
  have t2: "split ''/usr/bin/netscape'' = ''/usr/bin/netscape'' # []"
    by (simp add: split_def is_space_def)
  have wh: "which linux_env cmd" for cmd by (simp add: linux_env_def)
  have b1: "path_basename linux_env ''/usr/bin/firefox'' = ''firefox''"
    by (simp add: linux_env_def posix_basename_def)
  have b2: "path_basename linux_env ''/usr/bin/netscape'' = ''netscape''"
    by (simp add: linux_env_def posix_basename_def)
  have l1: "lower ''firefox'' = ''firefox''" "lower ''netscape'' = ''netscape''"
    "lower ''/usr/bin/firefox'' = ''/usr/bin/firefox''"
    by (simp_all add: lower_def char_lower_def)
  have d1: "browsers firefox_registry ''firefox''
            = Some (None, Some (BaseBrowser_init Mozilla ''firefox''))"
    by (simp add: firefox_registry_def empty_registry_def register_entry_def l1)
  have d2: "browsers firefox_registry ''netscape'' = None"
    by (simp add: firefox_registry_def empty_registry_def register_entry_def l1)
  show ?thesis
    using synthesize_template [OF init t1, of linux_env None "BaseBrowser_init Mozilla ''firefox''" True]
      synthesize_template [OF init t2, of linux_env None "BaseBrowser_init Mozilla ''firefox''" True]
      wh b1 b2 l1 d1 d2
    by (simp add: BaseBrowser_init_def)
qed

text \<open>
  \<^bold>\<open>C4\<close> The top-level \<open>open\<close>, after the lazy initialisation: let \<open>pre\<close> be the
  first names of the order, each resolved by \<open>get\<close> to a connector whose \<open>open\<close>, called
  on the trace its predecessors left, returns false. If \<open>pre\<close> is the whole order,
  \<open>open\<close> returns false and the trace is that of calling every connector in order. If
  the next name resolves to a connector that returns true, \<open>open\<close> returns true and the
  trace ends with that call: no later connector is run.
\<close>

theorem open_top_sweeps_order:
  assumes init: "ensure_registered e st0 = (st, Inr ())"
    and ord: "tryorder st = Some (pre @ rest)"
    and res: "\<forall>m\<in>set pre. get e st (Some m) = (st, Inr (c m))"
    and fails: "\<forall>j<length pre.
        snd (browser_open e (c (pre ! j)) url new autoraise
               (run_all e url new autoraise (map c (take j pre)) tr)) = Inr False"
  shows "(rest = [] \<longrightarrow>
            open_top e st0 url new autoraise tr
              = (st, run_all e url new autoraise (map c pre) tr, Inr False))
       \<and> (\<forall>n post. rest = n # post
              \<and> get e st (Some n) = (st, Inr (c n))
              \<and> snd (browser_open e (c n) url new autoraise
                       (run_all e url new autoraise (map c pre) tr)) = Inr True
            \<longrightarrow> open_top e st0 url new autoraise tr
              = (st, run_all e url new autoraise (map c (pre @ [n])) tr, Inr True))"
proof -
  let ?T = "run_all e url new autoraise (map c pre) tr"
  have top: "open_top e st0 url new autoraise tr = open_loop e url new autoraise (length pre) st ?T"
    using init open_loop_failing_prefix [OF ord res fails, of "length pre"]
    by (simp add: open_top_def)
  show ?thesis
  proof (intro conjI allI impI)
    assume "rest = []"
    with ord have "open_loop e url new autoraise (length pre) st ?T = (st, ?T, Inr False)"
      by (subst open_loop.simps) simp
    with top show "open_top e st0 url new autoraise tr = (st, ?T, Inr False)" by simp
  next
    fix n post
    assume a: "rest = n # post \<and> get e st (Some n) = (st, Inr (c n))
       \<and> snd (browser_open e (c n) url new autoraise ?T) = Inr True"
    then obtain T' where bo: "browser_open e (c n) url new autoraise ?T = (T', Inr True)"
      by (metis prod.collapse)
    have T': "run_all e url new autoraise (map c (pre @ [n])) tr = T'"
      using bo by (simp add: run_all_snoc)
    have "open_loop e url new autoraise (length pre) st ?T = (st, T', Inr True)"
      using ord a bo by (subst open_loop.simps) simp
    with top T' show "open_top e st0 url new autoraise tr
        = (st, run_all e url new autoraise (map c (pre @ [n])) tr, Inr True)"
      by simp
  qed
qed

theorem open_top_sweeps_order_witness:
  "open_top ab_env ab_registry ''http://example.org'' 0 True []
     = (ab_registry,
        [Audit ''webbrowser.open'' ''http://example.org'',
         Popen [''a'', ''http://example.org''] (plain_kw False),
         Audit ''webbrowser.open'' ''http://example.org'',
         Popen [''b'', ''http://example.org''] (plain_kw False)],
        Inr True)
   \<and> open_top linux_env ab_registry ''http://example.org'' 0 True []
     = (ab_registry,
        [Audit ''webbrowser.open'' ''http://example.org'',
         Popen [''a'', ''http://example.org''] (plain_kw False),
         Audit ''webbrowser.open'' ''http://example.org'',
         Popen [''b'', ''http://example.org''] (plain_kw False)],
        Inr False)"
proof -
  let ?c = "\<lambda>m. GenericBrowser_str linux_env GenericBrowser m"
  let ?url = "''http://example.org''"
  have init: "ensure_registered e ab_registry = (ab_registry, Inr ())" for e
    by (simp add: ensure_registered_def ab_registry_simps)
  have ord1: "tryorder ab_registry = Some ([''a''] @ [''b''])"
    by (simp add: ab_registry_simps)
  have ord2: "tryorder ab_registry = Some ([''a'', ''b''] @ [])"
    by (simp add: ab_registry_simps)
  have res1: "\<forall>m\<in>set [''a'']. get ab_env ab_registry (Some m) = (ab_registry, Inr (?c m))"
    by (simp add: ab_get)
  have res2: "\<forall>m\<in>set [''a'', ''b'']. get linux_env ab_registry (Some m) = (ab_registry, Inr (?c m))"
    by (simp add: ab_get)
  have fails1: "\<forall>j<length [''a''].
      snd (browser_open ab_env (?c ([''a''] ! j)) ?url 0 True
             (run_all ab_env ?url 0 True (map ?c (take j [''a''])) [])) = Inr False"
    by (simp add: ab_open)
  have fails2: "\<forall>j<length [''a'', ''b''].
      snd (browser_open linux_env (?c ([''a'', ''b''] ! j)) ?url 0 True
             (run_all linux_env ?url 0 True (map ?c (take j [''a'', ''b''])) [])) = Inr False"
    by (simp add: ab_open less_Suc_eq)
  show ?thesis
    using open_top_sweeps_order [OF init ord1 res1 fails1]
      open_top_sweeps_order [OF init ord2 res2 fails2]
    by (simp add: ab_get ab_open)
qed

text \<open>
  \<^bold>\<open>C5\<close> as stated (every connector raises on a \<open>new\<close> outside 0, 1, 2) fails:
  \<open>GenericBrowser.open\<close> never looks at \<open>new\<close>; with \<open>new = 5\<close> and a process that exits
  with status 0 it returns true.
\<close>

theorem GenericBrowser_open_accepts_any_new:
  "snd (browser_open (linux_env\<lparr>spawn := (\<lambda>h argv kw. Inr (exited 0))\<rparr>)
          (GenericBrowser_str linux_env GenericBrowser ''lynx'') ''http://example.org'' 5 True [])
   = Inr True"
  by (simp add: browser_open_def GenericBrowser_str_def GenericBrowser_open_def exited_def
        plain_kw_def linux_env_def)

text \<open>
  \<^bold>\<open>C5\<close>, amended: for a \<open>new\<close> outside 0, 1, 2, every remote-controllable
  (\<open>UnixBrowser\<close>) connector raises \<open>Error\<close> right after the audit event and before any
  spawn; the direct-command, backgrounded, Konqueror, Windows and OSA-script connectors
  do not validate \<open>new\<close> and behave as for \<open>new = 0\<close>.
\<close>

theorem UnixBrowser_open_rejects_bad_new:
  assumes "new \<notin> {0, 1, 2}"
  shows "(is_UnixBrowser (klass b) \<longrightarrow>
            browser_open e b url new autoraise tr
              = (tr @ [Audit ''webbrowser.open'' url], Inl (bad_new new)))
       \<and> (klass b \<in> {GenericBrowser, BackgroundBrowser, Konqueror, WindowsDefault, MacOSXOSAScript} \<longrightarrow>
            browser_open e b url new autoraise tr = browser_open e b url 0 autoraise tr)"
proof (intro conjI impI)
  assume u: "is_UnixBrowser (klass b)"
  then have k: "klass b \<noteq> GenericBrowser" "klass b \<noteq> BackgroundBrowser" by auto
  from assms have "action_of (klass b) new = Inl (bad_new new)"
    by (simp add: action_of_bad)
  with u k show "browser_open e b url new autoraise tr
      = (tr @ [Audit ''webbrowser.open'' url], Inl (bad_new new))"
    by (simp add: browser_open_def UnixBrowser_open_def)
next
  assume "klass b \<in> {GenericBrowser, BackgroundBrowser, Konqueror, WindowsDefault, MacOSXOSAScript}"
  with assms show "browser_open e b url new autoraise tr = browser_open e b url 0 autoraise tr"
    by (auto simp: browser_open_def GenericBrowser_open_def BackgroundBrowser_open_def
          Konqueror_open_def WindowsDefault_open_def MacOSXOSAScript_open_def)
qed

theorem UnixBrowser_open_rejects_bad_new_witness:
  "(7::int) \<notin> {0, 1, 2}
   \<and> browser_open linux_env (BaseBrowser_init Mozilla ''firefox'') ''http://example.org'' 7 True []
       = ([Audit ''webbrowser.open'' ''http://example.org''], Inl (bad_new 7))
   \<and> browser_open linux_env (GenericBrowser_str linux_env GenericBrowser ''lynx'')
         ''http://example.org'' 7 True []
       = browser_open linux_env (GenericBrowser_str linux_env GenericBrowser ''lynx'')
           ''http://example.org'' 0 True []"
  using UnixBrowser_open_rejects_bad_new [of 7 "BaseBrowser_init Mozilla ''firefox''" linux_env
          "''http://example.org''" True "[]"]
        UnixBrowser_open_rejects_bad_new [of 7 "GenericBrowser_str linux_env GenericBrowser ''lynx''"
          linux_env "''http://example.org''" True "[]"]
  by (simp add: BaseBrowser_init_def GenericBrowser_str_def)

text \<open>
  \<^bold>\<open>C6\<close> The remote phase of a remote-controllable launcher: let the remote command
  line (name, raise option, remote arguments for the action chosen by \<open>new\<close>) spawn a
  process \<open>p\<close>. If \<open>p.wait(5)\<close> returns a status, the phase succeeds exactly when the
  status is 0. If it times out, \<open>open\<close> returns true and its trace holds the audit event
  and this one spawn only: the fallback phase is not run.
\<close>

theorem remote_phase_outcome:
  assumes act: "action_of (klass b) new = Inr action"
    and al: "remote_arglist (klass b) url action = Inr arglist"
    and ro: "raise_opt_of (klass b) True autoraise = Inr raise_opt"
    and tr1: "tr1 = tr @ [Audit ''webbrowser.open'' url]"
    and sp: "spawn e tr1 ([name b] @ raise_opt @ arglist) (invoke_kw (klass b) True) = Inr p"
  shows "(\<forall>rc. wait5 p = Some rc \<longrightarrow>
            invoke e b arglist True autoraise tr1
              = (tr1 @ [Popen ([name b] @ raise_opt @ arglist) (invoke_kw (klass b) True)],
                 Inr (rc = 0)))
       \<and> (wait5 p = None \<longrightarrow>
            UnixBrowser_open e b url new autoraise tr
              = (tr1 @ [Popen ([name b] @ raise_opt @ arglist) (invoke_kw (klass b) True)],
                 Inr True))"
proof (intro conjI allI impI)
  fix rc assume "wait5 p = Some rc"
  with ro sp show "invoke e b arglist True autoraise tr1
      = (tr1 @ [Popen ([name b] @ raise_opt @ arglist) (invoke_kw (klass b) True)], Inr (rc = 0))"
    by (simp add: invoke_def)
next
  assume "wait5 p = None"
  with ro sp have "invoke e b arglist True autoraise tr1
      = (tr1 @ [Popen ([name b] @ raise_opt @ arglist) (invoke_kw (klass b) True)], Inr True)"
    by (simp add: invoke_def)
  with act al tr1 show "UnixBrowser_open e b url new autoraise tr
      = (tr1 @ [Popen ([name b] @ raise_opt @ arglist) (invoke_kw (klass b) True)], Inr True)"
    by (simp add: UnixBrowser_open_def)
qed

theorem remote_phase_outcome_witness:
  "invoke (linux_env\<lparr>spawn := (\<lambda>h argv kw. Inr (exited 1))\<rparr>)
      (BaseBrowser_init Mozilla ''firefox'') [''-new-window'', ''http://example.org''] True True
      [Audit ''webbrowser.open'' ''http://example.org'']
     = ([Audit ''webbrowser.open'' ''http://example.org'',
         Popen [''firefox'', ''-new-window'', ''http://example.org''] (invoke_kw Mozilla True)],
        Inr False)
   \<and> UnixBrowser_open (linux_env\<lparr>spawn := (\<lambda>h argv kw. Inr running)\<rparr>)
        (BaseBrowser_init Mozilla ''firefox'') ''http://example.org'' 1 True []
     = ([Audit ''webbrowser.open'' ''http://example.org'',
         Popen [''firefox'', ''-new-window'', ''http://example.org''] (invoke_kw Mozilla True)],
        Inr True)"
proof -
  let ?b = "BaseBrowser_init Mozilla ''firefox''"
  let ?url = "''http://example.org''"
  have act: "action_of (klass ?b) 1 = Inr (Some ''-new-window'')"
    by (simp add: action_of_def BaseBrowser_init_def)
  have al: "remote_arglist (klass ?b) ?url (Some ''-new-window'') = Inr [''-new-window'', ?url]"
    by (simp add: remote_arglist_def BaseBrowser_init_def replace.simps)
  have ro: "raise_opt_of (klass ?b) True True = Inr []"
    by (simp add: raise_opt_of_def BaseBrowser_init_def)
  have sp1: "spawn (linux_env\<lparr>spawn := (\<lambda>h argv kw. Inr (exited 1))\<rparr>)
               ([] @ [Audit ''webbrowser.open'' ?url]) ([name ?b] @ [] @ [''-new-window'', ?url])
               (invoke_kw (klass ?b) True) = Inr (exited 1)"
    by simp
  have sp2: "spawn (linux_env\<lparr>spawn := (\<lambda>h argv kw. Inr running)\<rparr>)
               ([] @ [Audit ''webbrowser.open'' ?url]) ([name ?b] @ [] @ [''-new-window'', ?url])
               (invoke_kw (klass ?b) True) = Inr running"
    by simp
  show ?thesis
    using remote_phase_outcome [OF act al ro refl sp1] remote_phase_outcome [OF act al ro refl sp2]
    by (simp add: exited_def running_def BaseBrowser_init_def)
qed



text \<open>
  \<^bold>\<open>C8\<close> Registering a name twice: after the second call the descriptor under the
  lowercased name is the second one and no key was added; the order after the first call
  already holds the name, and the second call only puts the name in front of it or behind
  it, so the earlier entry stays and the name occurs twice.
\<close>

theorem register_twice:
  assumes r1: "register e st n k1 inst1 p1 = (st1, Inr ())"
    and r2: "register e st1 n k2 inst2 p2 = (st2, r)"
  shows "r = Inr ()
       \<and> browsers st2 (lower n) = Some (k2, inst2)
       \<and> dom (browsers st2) = dom (browsers st1)
       \<and> (\<exists>order1. tryorder st1 = Some order1 \<and> n \<in> set order1
            \<and> tryorder st2 = Some (if p2 \<or> os_prefers st1 n then n # order1 else order1 @ [n]))"
proof -
  obtain s0 r0 where e0: "ensure_registered e st = (s0, r0)" by (cases "ensure_registered e st")
  from r1 e0 have r0: "r0 = Inr ()" and st1: "st1 = register_entry s0 n k1 inst1 p1"
    by (auto simp: register_def split: sum.splits)
  from ensure_registered_result [OF e0] obtain order0 where o0: "tryorder s0 = Some order0"
    by (auto simp: initialized_def)
  define order1 where "order1 = (if p1 \<or> os_prefers s0 n then n # order0 else order0 @ [n])"
  have o1: "tryorder st1 = Some order1"
    using st1 o0 by (simp add: register_entry_def order1_def)
  have mem: "n \<in> set order1" by (simp add: order1_def)
  have b1: "browsers st1 (lower n) = Some (k1, inst1)"
    using st1 by (simp add: register_entry_def)
  from o1 have "register e st1 n k2 inst2 p2 = (register_entry st1 n k2 inst2 p2, Inr ())"
    by (rule register_initialized_state)
  with r2 have r: "r = Inr ()" and st2: "st2 = register_entry st1 n k2 inst2 p2" by auto
  have "dom (browsers st2) = dom (browsers st1)"
    using st2 b1 by (auto simp: register_entry_def)
  then show ?thesis
    using r st2 o1 mem by (simp add: register_entry_def)
qed

theorem register_twice_witness:
  "register linux_env empty_registry ''Firefox'' None (Some (BaseBrowser_init Mozilla ''firefox'')) False
     = (register_entry empty_registry ''Firefox'' None (Some (BaseBrowser_init Mozilla ''firefox'')) False,
        Inr ())
   \<and> browsers (fst (register linux_env
         (register_entry empty_registry ''Firefox'' None
            (Some (BaseBrowser_init Mozilla ''firefox'')) False)
         ''Firefox'' (Some Chrome) None False)) ''firefox''
     = Some (Some Chrome, None)
   \<and> tryorder (fst (register linux_env
         (register_entry empty_registry ''Firefox'' None
            (Some (BaseBrowser_init Mozilla ''firefox'')) False)
         ''Firefox'' (Some Chrome) None False))
     = Some [''Firefox'', ''Firefox'']"
proof -
  let ?st1 = "register_entry empty_registry ''Firefox'' None
                (Some (BaseBrowser_init Mozilla ''firefox'')) False"
  have o: "tryorder empty_registry = Some []" by (simp add: empty_registry_def)
  have r1: "register linux_env empty_registry ''Firefox'' None
              (Some (BaseBrowser_init Mozilla ''firefox'')) False = (?st1, Inr ())"
    using o by (rule register_initialized_state)
  obtain st2 r where r2: "register linux_env ?st1 ''Firefox'' (Some Chrome) None False = (st2, r)"
    by (cases "register linux_env ?st1 ''Firefox'' (Some Chrome) None False")
  have l: "lower ''Firefox'' = ''firefox''" by (simp add: lower_def char_lower_def)
  have o1: "tryorder ?st1 = Some [''Firefox'']"
    by (simp add: register_entry_def empty_registry_def os_prefers_def)
  have np: "\<not> os_prefers ?st1 ''Firefox''"
    by (simp add: register_entry_def empty_registry_def os_prefers_def)
  show ?thesis
    using register_twice [OF r1 r2] r1 r2 l o1 np by simp
qed




text \<open>
  \<^bold>\<open>C10\<close> as stated fails when the command string is itself a registered name: \<open>get\<close>
  then finds the descriptor directly, never calls the synthesis, and builds the connector
  with the factory. Here \<open>kfm\<close> is on the search path and registered with the factory
  \<open>Konqueror\<close> and no instance.
\<close>

theorem get_registered_factory_name:
  "which linux_env ''kfm''
   \<and> browsers factory_registry (lower (path_basename linux_env ''kfm'')) = Some (Some Konqueror, None)
   \<and> get linux_env factory_registry (Some ''kfm'')
       = (factory_registry, Inr (BaseBrowser_init Konqueror ''''))"
  by (simp add: linux_env_def factory_registry_def empty_registry_def register_entry_def
        get_def ensure_registered_def lower_def char_lower_def posix_basename_def)

text \<open>
  \<^bold>\<open>C10\<close>, amended: let the command string hold no \<open>%s\<close> and be no registered name
  itself, its first token be on the search path, and that token's basename be registered
  with a factory (or nothing) and no instance. Then the synthesis yields no connector and
  leaves the registry as it was, and \<open>get\<close> on that string raises the no-runnable-browser
  error.
\<close>

theorem synthesize_factory_only:
  assumes ph: "\<not> contains ''%s'' s"
    and un: "browsers st (lower s) = None"
    and tok: "split s = cmd # toks"
    and wh: "which e cmd"
    and fac: "browsers st (lower (path_basename e cmd)) = Some (k, None)"
  shows "synthesize e st s preferred = (st, Inr (None, None))
       \<and> (\<forall>st0. ensure_registered e st0 = (st, Inr ()) \<longrightarrow>
             get e st0 (Some s) = (st, Inl (Error ''could not locate runnable browser'')))"
proof -
  have syn: "synthesize e st s p = (st, Inr (None, None))" for p
    using tok wh fac by (simp add: synthesize_def synthesize_with_def)
  have "get_loop e st [s] = (st, Inl (Error ''could not locate runnable browser''))"
    using ph un syn by simp
  then show ?thesis
    using syn by (simp add: get_def)
qed

theorem synthesize_factory_only_witness:
  "synthesize linux_env factory_registry ''/opt/kde/bin/kfm'' False
     = (factory_registry, Inr (None, None))
   \<and> get linux_env factory_registry (Some ''/opt/kde/bin/kfm'')
     = (factory_registry, Inl (Error ''could not locate runnable browser''))"
proof -
  have ph: "\<not> contains ''%s'' ''/opt/kde/bin/kfm''" by simp
  have un: "browsers factory_registry (lower ''/opt/kde/bin/kfm'') = None"
    by (simp add: factory_registry_def empty_registry_def register_entry_def lower_def
          char_lower_def)
  have tok: "split ''/opt/kde/bin/kfm'' = ''/opt/kde/bin/kfm'' # []"
    by (simp add: split_def is_space_def)
  have wh: "which linux_env ''/opt/kde/bin/kfm''" by (simp add: linux_env_def)
  have fac: "browsers factory_registry (lower (path_basename linux_env ''/opt/kde/bin/kfm''))
             = Some (Some Konqueror, None)"
    by (simp add: factory_registry_def empty_registry_def register_entry_def lower_def
          char_lower_def linux_env_def posix_basename_def)
  have i: "ensure_registered linux_env factory_registry = (factory_registry, Inr ())"
    by (simp add: ensure_registered_def factory_registry_def empty_registry_def register_entry_def)
  show ?thesis
    using synthesize_factory_only [OF ph un tok wh fac, of False] i
    by simp
qed

end
